theory Spec2Isabelle
  imports Main "HOL-Library.Sublist"
begin

section \<open>scan2webdav: the file-intake pipeline of \<^verbatim>\<open>scan2webdav.go\<close>\<close>

text \<open>
  The program watches a directory, runs every file it finds through an external OCR
  executable and uploads the result with an HTTP PUT. Everything the Go code does to the
  outside world (the filesystem, the OCR process, the HTTP server, the log) is explicit
  here: a \<open>world\<close> holds the filesystem and the trace of calls made so far, and the
  answers of the outside world come from an \<open>env\<close> of oracle functions.
  Go strings are byte sequences; they are \<^typ>\<open>string\<close> here.
\<close>

subsection \<open>Library: \<^verbatim>\<open>path/filepath\<close> on a Unix system\<close>

definition slash :: char where
  "slash = CHR ''/''"

text \<open>\<^verbatim>\<open>filepath.Base\<close>: the last element of the path, trailing slashes removed first;
  \<^verbatim>\<open>"."\<close> for the empty path and \<^verbatim>\<open>"/"\<close> for a path of slashes only.\<close>

definition Base :: "string \<Rightarrow> string" where
  "Base path =
     (if path = [] then ''.''
      else let p = rev (dropWhile (\<lambda>c. c = slash) (rev path));
               e = rev (takeWhile (\<lambda>c. c \<noteq> slash) (rev p))
           in if e = [] then ''/'' else e)"

text \<open>\<^verbatim>\<open>strings.Split(path, "/")\<close> and \<^verbatim>\<open>strings.Join(elems, "/")\<close>.\<close>

fun split_slash :: "string \<Rightarrow> string list" where
  "split_slash [] = [[]]"
| "split_slash (c # cs) =
     (if c = slash then [] # split_slash cs
      else (case split_slash cs of e # es \<Rightarrow> (c # e) # es | [] \<Rightarrow> [[c]]))"

fun join_slash :: "string list \<Rightarrow> string" where
  "join_slash [] = []"
| "join_slash [e] = e"
| "join_slash (e # es) = e @ slash # join_slash es"

text \<open>\<^verbatim>\<open>filepath.Clean\<close>, element by element: empty and \<^verbatim>\<open>.\<close> elements are dropped, a
  \<^verbatim>\<open>..\<close> removes the element before it, is dropped at the root, and is kept at the front
  of a relative path.\<close>

definition clean_step :: "bool \<Rightarrow> string list \<Rightarrow> string \<Rightarrow> string list" where
  "clean_step rooted out e =
     (if e = [] \<or> e = ''.'' then out
      else if e = ''..'' then
        (if out \<noteq> [] \<and> last out \<noteq> ''..'' then butlast out
         else if rooted then out
         else out @ [''..''])
      else out @ [e])"

definition Clean :: "string \<Rightarrow> string" where
  "Clean path =
     (if path = [] then ''.''
      else let rooted = (hd path = slash);
               out = foldl (clean_step rooted) [] (split_slash path)
           in if rooted then slash # join_slash out
              else if out = [] then ''.''
              else join_slash out)"

text \<open>\<^verbatim>\<open>filepath.Join(a, b)\<close>: the elements from the first non-empty one on, joined with a
  slash and cleaned; the empty string when both are empty.\<close>

definition Join :: "string \<Rightarrow> string \<Rightarrow> string" where
  "Join a b =
     (if a \<noteq> [] then Clean (a @ slash # b)
      else if b \<noteq> [] then Clean b
      else [])"

subsection \<open>Library: \<^verbatim>\<open>shlex.Split\<close>\<close>

text \<open>
  Modelled from the spec: \<^verbatim>\<open>shlex.Split\<close> is imported from github.com/google/shlex and
  is not part of the source tree. The spec asks for shell-lexing rules with quoting and
  escaping honoured and no shell expansion; the model is that package's tokenizer, a
  state machine over the characters: words are separated by blanks, single quotes quote
  literally, double quotes quote with backslash escapes, a backslash makes the next
  character literal, and an unquoted \<^verbatim>\<open>#\<close> at the start of a token begins a comment that
  runs to the end of the line. No character is expanded.
  A lexing error (input ends inside quotes or after a backslash) is returned together
  with the words completed before it.
\<close>

datatype runeTokenClass =
    unknownRuneClass
  | spaceRuneClass
  | escapingQuoteRuneClass
  | nonEscapingQuoteRuneClass
  | escapeRuneClass
  | commentRuneClass

definition ClassifyRune :: "char \<Rightarrow> runeTokenClass" where
  "ClassifyRune c =
     (if c = CHR '' '' \<or> c = CHR 0x09 \<or> c = CHR 0x0D \<or> c = CHR 0x0A then spaceRuneClass
      else if c = CHR 0x22 then escapingQuoteRuneClass
      else if c = CHR 0x27 then nonEscapingQuoteRuneClass
      else if c = CHR 0x5C then escapeRuneClass
      else if c = CHR ''#'' then commentRuneClass
      else unknownRuneClass)"

datatype TokenType = UnknownToken | WordToken | CommentToken

datatype lexerState =
    startState
  | inWordState
  | escapingState
  | escapingQuotedState
  | quotingEscapingState
  | quotingState
  | commentState

datatype scan_step =
    Continue lexerState TokenType string
  | Emit TokenType string

text \<open>One turn of the tokenizer's loop on the character \<open>c\<close>, in state \<open>st\<close> with the
  token type \<open>ty\<close> and the characters \<open>val\<close> collected so far.\<close>

definition scan_rune :: "lexerState \<Rightarrow> TokenType \<Rightarrow> string \<Rightarrow> char \<Rightarrow> scan_step" where
  "scan_rune st ty val c =
     (case st of
        startState \<Rightarrow>
          (case ClassifyRune c of
             spaceRuneClass \<Rightarrow> Continue startState ty val
           | escapingQuoteRuneClass \<Rightarrow> Continue quotingEscapingState WordToken val
           | nonEscapingQuoteRuneClass \<Rightarrow> Continue quotingState WordToken val
           | escapeRuneClass \<Rightarrow> Continue escapingState WordToken val
           | commentRuneClass \<Rightarrow> Continue commentState CommentToken val
           | unknownRuneClass \<Rightarrow> Continue inWordState WordToken (val @ [c]))
      | inWordState \<Rightarrow>
          (case ClassifyRune c of
             spaceRuneClass \<Rightarrow> Emit ty val
           | escapingQuoteRuneClass \<Rightarrow> Continue quotingEscapingState ty val
           | nonEscapingQuoteRuneClass \<Rightarrow> Continue quotingState ty val
           | escapeRuneClass \<Rightarrow> Continue escapingState ty val
           | commentRuneClass \<Rightarrow> Continue inWordState ty (val @ [c])
           | unknownRuneClass \<Rightarrow> Continue inWordState ty (val @ [c]))
      | escapingState \<Rightarrow> Continue inWordState ty (val @ [c])
      | escapingQuotedState \<Rightarrow> Continue quotingEscapingState ty (val @ [c])
      | quotingEscapingState \<Rightarrow>
          (case ClassifyRune c of
             escapingQuoteRuneClass \<Rightarrow> Continue inWordState ty val
           | escapeRuneClass \<Rightarrow> Continue escapingQuotedState ty val
           | _ \<Rightarrow> Continue quotingEscapingState ty (val @ [c]))
      | quotingState \<Rightarrow>
          (case ClassifyRune c of
             nonEscapingQuoteRuneClass \<Rightarrow> Continue inWordState ty val
           | _ \<Rightarrow> Continue quotingState ty (val @ [c]))
      | commentState \<Rightarrow>
          (if c = CHR 0x0A then Emit ty val
           else Continue commentState ty (val @ [c])))"

text \<open>What the lexer does with a finished token: a word is appended to the result, a
  comment is skipped.\<close>

definition keep_word :: "string list \<Rightarrow> TokenType \<Rightarrow> string \<Rightarrow> string list" where
  "keep_word acc ty val = (if ty = WordToken then acc @ [val] else acc)"

text \<open>The loops of \<^verbatim>\<open>Split\<close>, \<^verbatim>\<open>Lexer.Next\<close> and the tokenizer, run over the whole input:
  \<open>acc\<close> holds the words returned so far. At the end of the input an open word or comment
  is a finished token, and open quotes or a pending escape are the error.\<close>

fun shlex_scan ::
  "lexerState \<Rightarrow> TokenType \<Rightarrow> string \<Rightarrow> string list \<Rightarrow> string \<Rightarrow> string list \<times> string option"
where
  "shlex_scan st ty val acc [] =
     (case st of
        startState \<Rightarrow> (acc, None)
      | inWordState \<Rightarrow> (keep_word acc ty val, None)
      | escapingState \<Rightarrow> (acc, Some ''EOF found after escape character'')
      | escapingQuotedState \<Rightarrow> (acc, Some ''EOF found after escape character'')
      | quotingEscapingState \<Rightarrow> (acc, Some ''EOF found when expecting closing quote'')
      | quotingState \<Rightarrow> (acc, Some ''EOF found when expecting closing quote'')
      | commentState \<Rightarrow> (keep_word acc ty val, None))"
| "shlex_scan st ty val acc (c # cs) =
     (case scan_rune st ty val c of
        Continue st' ty' val' \<Rightarrow> shlex_scan st' ty' val' acc cs
      | Emit ty' val' \<Rightarrow> shlex_scan startState UnknownToken [] (keep_word acc ty' val') cs)"

definition shlex_Split :: "string \<Rightarrow> string list \<times> string option" where
  "shlex_Split s = shlex_scan startState UnknownToken [] [] s"

subsection \<open>Configuration, filesystem, trace\<close>

record server_cfg =
  Url :: string
  User :: string
  Pass :: string

record watcher_cfg =
  Path :: string

record ocr_cfg =
  Exec :: string
  Args :: string

record Config =
  Server :: server_cfg
  Watcher :: watcher_cfg
  Ocr :: ocr_cfg

text \<open>The filesystem is a finite table from path to what is there. Paths are compared
  as strings: the model has no links and no second spelling of a path.\<close>

datatype node = File string | Dir

type_synonym filesystem = "(string \<times> node) list"

definition is_file :: "filesystem \<Rightarrow> string \<Rightarrow> bool" where
  "is_file t p = (case map_of t p of Some (File c) \<Rightarrow> True | _ \<Rightarrow> False)"

text \<open>\<open>within d p\<close>: the path \<open>p\<close> is the directory \<open>d\<close> itself or lies below it.\<close>

definition within :: "string \<Rightarrow> string \<Rightarrow> bool" where
  "within d p = (p = d \<or> take (length d + 1) p = d @ [slash])"

text \<open>The body of the upload request: \<^verbatim>\<open>multipart.Writer\<close> output, kept structured.
  \<open>FormFile field filename content\<close> is the part \<^verbatim>\<open>CreateFormFile\<close> opens.\<close>

datatype form_part = FormFile string string string

record multipart =
  Boundary :: string
  Parts :: "form_part list"

record request =
  Method :: string
  URL :: string
  BasicAuth :: "(string \<times> string) option"
  Header :: "(string \<times> string) list"
  ReqBody :: multipart

text \<open>\<open>Body\<close> is what \<^verbatim>\<open>io.ReadAll(res.Body)\<close> gives on the open body: the bytes, or
  \<open>Inl\<close> the read error. \<open>BodyClosed\<close> is what the same call gives once \<^verbatim>\<open>uploadFile\<close> has
  read and closed the body: the bytes and the error, if any. A body that came over the
  network gives an error then; the empty body of a response without content
  (\<^verbatim>\<open>http.NoBody\<close>) gives no bytes and no error.\<close>

record response =
  StatusCode :: int
  Status :: string
  Body :: "string + string"
  BodyClosed :: "string \<times> string option"

record FileInfo =
  Name :: string
  IsDir :: bool

text \<open>Every \<^verbatim>\<open>log.Print*\<close> call site of the source is a constructor.\<close>

datatype logline =
    NewFileDetected string
  | ProcessingFile string
  | TempDirCreated string
  | ErrorParsingArguments string
  | Executing string "string list"
  | CommandOutput string
  | JobFailed string
  | JobFinished
  | ErrorUploading string
  | UploadResult string string
  | ResponseBody string
  | LoggedError string
  | RemovingInput string
  | RemovingTempDir string
  | ProcessingOldFiles
  | Watching string

text \<open>The calls that leave the process. \<open>FatalLog\<close> is a \<^verbatim>\<open>log.Fatal*\<close> call: the
  message is logged and the process ends with \<^verbatim>\<open>os.Exit(1)\<close>.\<close>

datatype event =
    Log logline
  | FatalLog string
  | Sleep nat
  | MkdirTempCall string
  | ExecCommand string "string list"
  | OpenFile string
  | HttpDo request
  | Remove string
  | RemoveAll string
  | NotifyWatch string

record world =
  fs :: filesystem
  trace :: "event list"

text \<open>How a call ends when it does not return: \<open>FatalExit\<close> is \<^verbatim>\<open>os.Exit(1)\<close> from
  \<^verbatim>\<open>log.Fatal*\<close>, where no deferred call runs; \<open>NilPanic\<close> is the run-time panic of a nil
  dereference, which runs the deferred calls and then ends the process, since nothing
  in the program recovers.\<close>

datatype crash = FatalExit | NilPanic

text \<open>What the view of a directory tree is to \<^verbatim>\<open>filepath.Walk\<close>: for each entry either
  \<^verbatim>\<open>os.Lstat\<close> fails, or it is not a directory, or it is a directory whose names are read
  (with an error, or giving the children in lexical order).\<close>

datatype walk_node =
    LstatFails string string
  | NonDir string
  | DirNode string "string option" "walk_node list"

text \<open>The outside world.
  \<^item> \<open>mkdir_error\<close>, \<open>random_names\<close>: for \<^verbatim>\<open>ioutil.TempDir\<close>, the error of \<^verbatim>\<open>Mkdir\<close> other
    than "exists", and the random suffixes it tries in turn;
  \<^item> \<open>run_command\<close>: \<^verbatim>\<open>cmd.CombinedOutput()\<close>, the output, the error (a spawn error or a
    non-zero exit) and the filesystem the command leaves;
  \<^item> \<open>random_boundary\<close>: the boundary \<^verbatim>\<open>multipart.NewWriter\<close> draws;
  \<^item> \<open>new_request_error\<close>: the error of \<^verbatim>\<open>http.NewRequest\<close> on a URL;
  \<^item> \<open>client_do\<close>: \<^verbatim>\<open>client.Do(req)\<close>, the response (\<open>None\<close> is nil) and the error;
  \<^item> \<open>walk_view\<close>: what \<^verbatim>\<open>filepath.Walk\<close> sees below a root;
  \<^item> \<open>os_Stat\<close>, \<open>notify_Watch\<close>: the two calls of \<^verbatim>\<open>main\<close>;
  \<^item> \<open>remove_error\<close>: the error of \<^verbatim>\<open>os.Remove\<close> on a path for a reason the filesystem
    table does not show (no permission, a read-only filesystem);
  \<^item> \<open>remove_all_stuck\<close>: the paths \<^verbatim>\<open>os.RemoveAll\<close> cannot remove below a directory
    (none when it succeeds).
  Each answer may depend on everything that happened before (the world).\<close>

record env =
  mkdir_error :: "world \<Rightarrow> string option"
  random_names :: "world \<Rightarrow> string list"
  run_command :: "string \<Rightarrow> string list \<Rightarrow> world \<Rightarrow> (string \<times> string option) \<times> filesystem"
  random_boundary :: "world \<Rightarrow> string"
  new_request_error :: "string \<Rightarrow> string option"
  client_do :: "request \<Rightarrow> world \<Rightarrow> response option \<times> string option"
  walk_view :: "string \<Rightarrow> world \<Rightarrow> walk_node"
  os_Stat :: "string \<Rightarrow> world \<Rightarrow> string + FileInfo"
  notify_Watch :: "string \<Rightarrow> world \<Rightarrow> string option"
  remove_error :: "string \<Rightarrow> world \<Rightarrow> string option"
  remove_all_stuck :: "string \<Rightarrow> world \<Rightarrow> string list"

definition emit :: "event \<Rightarrow> world \<Rightarrow> world" where
  "emit e w = w\<lparr>trace := trace w @ [e]\<rparr>"

subsection \<open>Library: filesystem calls\<close>

text \<open>\<^verbatim>\<open>os.Remove\<close> removes a file or an empty directory. It fails and changes nothing
  on a directory with entries, on a missing path, and when the system refuses
  (\<open>remove_error\<close>). Line 136 drops its error, so the caller goes on in every case.\<close>

definition has_children :: "filesystem \<Rightarrow> string \<Rightarrow> bool" where
  "has_children t d = list_ex (\<lambda>p. p \<noteq> d \<and> within d p) (map fst t)"

definition os_Remove :: "env \<Rightarrow> string \<Rightarrow> world \<Rightarrow> world" where
  "os_Remove E p w =
     (let w1 = emit (Remove p) w
      in if remove_error E p w \<noteq> None then w1
         else if map_of (fs w) p = Some Dir \<and> has_children (fs w) p then w1
         else w1\<lparr>fs := filter (\<lambda>(q, n). q \<noteq> p) (fs w)\<rparr>)"

text \<open>\<^verbatim>\<open>os.RemoveAll\<close> removes the path and everything below it that it can remove, and
  returns the first error it met: the paths it cannot remove (\<open>remove_all_stuck\<close>) stay.
  Lines 110 and 147 drop its error.\<close>

definition os_RemoveAll :: "env \<Rightarrow> string \<Rightarrow> world \<Rightarrow> world" where
  "os_RemoveAll E d w =
     (emit (RemoveAll d) w)
       \<lparr>fs := filter (\<lambda>(q, n). \<not> within d q \<or> q \<in> set (remove_all_stuck E d w)) (fs w)\<rparr>"

text \<open>\<^verbatim>\<open>ioutil.TempDir("/tmp", "ocrmypdf-*")\<close>: the star is replaced by a random string,
  and a name that exists is tried again with the next random string. The directory
  made is new.\<close>

definition TempDir :: "env \<Rightarrow> world \<Rightarrow> (string + string) \<times> world" where
  "TempDir E w =
     (let w1 = emit (MkdirTempCall ''/tmp/ocrmypdf-*'') w
      in case mkdir_error E w of
           Some e \<Rightarrow> (Inl e, w1)
         | None \<Rightarrow>
            (case find (\<lambda>r. map_of (fs w) (''/tmp/ocrmypdf-'' @ r) = None) (random_names E w) of
               None \<Rightarrow> (Inl ''file exists'', w1)
             | Some r \<Rightarrow>
                (Inr (''/tmp/ocrmypdf-'' @ r), w1\<lparr>fs := (''/tmp/ocrmypdf-'' @ r, Dir) # fs w\<rparr>)))"

text \<open>\<^verbatim>\<open>Writer.FormDataContentType\<close>: the boundary is quoted when it holds a special
  character.\<close>

definition FormDataContentType :: "string \<Rightarrow> string" where
  "FormDataContentType b =
     ''multipart/form-data; boundary='' @
     (if list_ex (\<lambda>c. c \<in> set (''()<>@,;:'' @ [CHR 0x5C, CHR 0x22] @ ''/[]?= '')) b
      then [CHR 0x22] @ b @ [CHR 0x22] else b)"

subsection \<open>\<^verbatim>\<open>uploadFile\<close> (lines 43 to 94)\<close>

text \<open>
  The form file is written to a buffer in memory, so \<^verbatim>\<open>CreateFormFile\<close> (line 50) does
  not fail. \<^verbatim>\<open>os.Open\<close> fails on a missing path and \<^verbatim>\<open>io.Copy\<close> on a directory; both are
  \<^verbatim>\<open>log.Fatalf\<close>. After \<^verbatim>\<open>client.Do\<close> an error is logged with \<^verbatim>\<open>log.Println\<close> and the code
  goes on to \<^verbatim>\<open>res.Body\<close> (line 81), a nil dereference when there is no response.
\<close>

definition uploadFile ::
  "env \<Rightarrow> string \<Rightarrow> string \<Rightarrow> string \<Rightarrow> string \<Rightarrow> world \<Rightarrow> (crash + response) \<times> world"
where
  "uploadFile E filename url user passwd w =
     (let boundary = random_boundary E w;
          fileBase = Base filename;
          url' = url @ ''/'' @ fileBase;
          w1 = emit (OpenFile filename) w
      in case map_of (fs w) filename of
           None \<Rightarrow> (Inl FatalExit, emit (FatalLog ''Opening file'') w1)
         | Some Dir \<Rightarrow> (Inl FatalExit, emit (FatalLog ''Buffering file'') w1)
         | Some (File content) \<Rightarrow>
            (case new_request_error E url' of
               Some e \<Rightarrow> (Inl FatalExit, emit (FatalLog e) w1)
             | None \<Rightarrow>
                (let req = \<lparr>Method = ''PUT'', URL = url',
                            BasicAuth = Some (user, passwd),
                            Header = [(''Content-Type'', FormDataContentType boundary)],
                            ReqBody = \<lparr>Boundary = boundary,
                                       Parts = [FormFile ''file'' fileBase content]\<rparr>\<rparr>;
                     (res, err) = client_do E req w1;
                     w2 = emit (HttpDo req) w1;
                     w3 = (case err of
                             Some e \<Rightarrow> emit (Log (ErrorUploading e)) w2
                           | None \<Rightarrow> w2)
                 in case res of
                      None \<Rightarrow> (Inl NilPanic, w3)
                    | Some r \<Rightarrow>
                       (let w4 = emit (Log (UploadResult filename (Status r))) w3
                        in if StatusCode r < 200 \<or> StatusCode r \<ge> 300 then
                             (case Body r of
                                Inl e \<Rightarrow> (Inl FatalExit, emit (FatalLog e) w4)
                              | Inr bodyString \<Rightarrow> (Inr r, emit (Log (ResponseBody bodyString)) w4))
                           else (Inr r, w4)))))"

subsection \<open>\<^verbatim>\<open>processFile\<close> (lines 96 to 148)\<close>

text \<open>Lines 97 to 111: detection, the settle-wait, and the temporary directory.\<close>

definition staging :: "env \<Rightarrow> string \<Rightarrow> bool \<Rightarrow> world \<Rightarrow> (crash + string) \<times> world" where
  "staging E inFile wait w =
     (let w1 = emit (Log (NewFileDetected inFile)) w;
          w2 = (if wait then emit (Sleep 5) w1 else w1);
          w3 = emit (Log (ProcessingFile inFile)) w2
      in case TempDir E w3 of
           (Inl e, w4) \<Rightarrow> (Inl FatalExit, emit (FatalLog e) w4)
         | (Inr tempDir, w4) \<Rightarrow> (Inr tempDir, emit (Log (TempDirCreated tempDir)) w4))"

text \<open>Lines 116 to 124: the OCR run. An error of \<^verbatim>\<open>shlex.Split\<close> is logged and the words
  it returned are used.\<close>

definition runOcr :: "env \<Rightarrow> Config \<Rightarrow> string \<Rightarrow> string \<Rightarrow> world \<Rightarrow> string option \<times> world" where
  "runOcr E cfg inFile tempFile w =
     (let (args, err) = shlex_Split (Args (Ocr cfg));
          w1 = (case err of
                  Some e \<Rightarrow> emit (Log (ErrorParsingArguments e)) w
                | None \<Rightarrow> w);
          args = args @ [inFile, tempFile];
          w2 = emit (Log (Executing (Exec (Ocr cfg)) args)) w1;
          ((out, err), t) = run_command E (Exec (Ocr cfg)) args w2;
          w3 = (emit (ExecCommand (Exec (Ocr cfg)) args) w2)\<lparr>fs := t\<rparr>;
          w4 = emit (Log (CommandOutput out)) w3
      in (err, w4))"

text \<open>Lines 146 and 147.\<close>

definition cleanup :: "env \<Rightarrow> string \<Rightarrow> world \<Rightarrow> (crash + unit) \<times> world" where
  "cleanup E tempDir w =
     (Inr (), os_RemoveAll E tempDir (emit (Log (RemovingTempDir tempDir)) w))"

text \<open>The world in which line 133 calls \<^verbatim>\<open>uploadFile\<close>, and the call.\<close>

definition upload_step :: "env \<Rightarrow> Config \<Rightarrow> string \<Rightarrow> world \<Rightarrow> (crash + response) \<times> world" where
  "upload_step E cfg tempFile w =
     uploadFile E tempFile (Url (Server cfg)) (User (Server cfg)) (Pass (Server cfg))
       (emit (Log JobFinished) w)"

text \<open>Lines 138 to 143: in the branch of a status outside 200..299 the body is read a
  second time, after \<^verbatim>\<open>uploadFile\<close> has read and closed it; an error of that read is
  logged, and then the bytes it gave.\<close>

definition log_body_again :: "response \<Rightarrow> world \<Rightarrow> world" where
  "log_body_again res w =
     (let (bodyString, err) = BodyClosed res;
          w1 = (case err of
                  Some e \<Rightarrow> emit (Log (LoggedError e)) w
                | None \<Rightarrow> w)
      in emit (Log (ResponseBody bodyString)) w1)"

text \<open>Lines 113 to 147.\<close>

definition job :: "env \<Rightarrow> Config \<Rightarrow> string \<Rightarrow> string \<Rightarrow> world \<Rightarrow> (crash + unit) \<times> world" where
  "job E cfg inFile tempDir w =
     (let tempFile = Join tempDir (Base inFile)
      in case runOcr E cfg inFile tempFile w of
           (Some e, w1) \<Rightarrow> cleanup E tempDir (emit (Log (JobFailed e)) w1)
         | (None, w1) \<Rightarrow>
            (case upload_step E cfg tempFile w1 of
               (Inl c, w2) \<Rightarrow> (Inl c, w2)
             | (Inr res, w2) \<Rightarrow>
                 if StatusCode res \<ge> 200 \<and> StatusCode res < 300 then
                   cleanup E tempDir (os_Remove E inFile (emit (Log (RemovingInput inFile)) w2))
                 else
                   cleanup E tempDir (log_body_again res w2)))"

text \<open>The whole function. The deferred \<^verbatim>\<open>os.RemoveAll(tempDir)\<close> of line 110 runs when the
  function returns and when it panics, and does not run when \<^verbatim>\<open>log.Fatal*\<close> ends the
  process.\<close>

definition processFile :: "env \<Rightarrow> Config \<Rightarrow> string \<Rightarrow> bool \<Rightarrow> world \<Rightarrow> (crash + unit) \<times> world" where
  "processFile E cfg inFile wait w =
     (case staging E inFile wait w of
        (Inl c, w1) \<Rightarrow> (Inl c, w1)
      | (Inr tempDir, w1) \<Rightarrow>
         (case job E cfg inFile tempDir w1 of
            (Inl FatalExit, w2) \<Rightarrow> (Inl FatalExit, w2)
          | (r, w2) \<Rightarrow> (r, os_RemoveAll E tempDir w2)))"

subsection \<open>\<^verbatim>\<open>processDir\<close> (lines 150 to 160) and \<^verbatim>\<open>main\<close> (lines 182 to 204)\<close>

text \<open>The callback given to \<^verbatim>\<open>filepath.Walk\<close>. It does not use its path argument. With
  an error it logs it and goes on to \<^verbatim>\<open>info.IsDir()\<close>, where \<open>info\<close> is nil when
  \<^verbatim>\<open>os.Lstat\<close> failed. It returns nil whenever it returns.\<close>

definition walkFn ::
  "env \<Rightarrow> Config \<Rightarrow> string \<Rightarrow> FileInfo option \<Rightarrow> string option \<Rightarrow> world \<Rightarrow> (crash + unit) \<times> world"
where
  "walkFn E cfg path info err w =
     (let w1 = (case err of
                  Some e \<Rightarrow> emit (Log (LoggedError e)) w
                | None \<Rightarrow> w)
      in case info of
           None \<Rightarrow> (Inl NilPanic, w1)
         | Some i \<Rightarrow>
            if \<not> IsDir i then processFile E cfg (Path (Watcher cfg) @ ''/'' @ Name i) False w1
            else (Inr (), w1))"

fun node_name :: "walk_node \<Rightarrow> string" where
  "node_name (LstatFails n e) = n"
| "node_name (NonDir n) = n"
| "node_name (DirNode n err entries) = n"

text \<open>\<^verbatim>\<open>filepath.Walk\<close> for a callback that returns nil: the callback is called on every
  entry, with the error of \<^verbatim>\<open>os.Lstat\<close> and no info where that failed, with the error of
  reading the names on a directory that cannot be read (its entries are then not
  visited), and the entries of a directory follow it in order.\<close>

fun walk ::
  "(string \<Rightarrow> FileInfo option \<Rightarrow> string option \<Rightarrow> world \<Rightarrow> (crash + unit) \<times> world) \<Rightarrow>
   string \<Rightarrow> walk_node \<Rightarrow> world \<Rightarrow> (crash + unit) \<times> world"
and walk_entries ::
  "(string \<Rightarrow> FileInfo option \<Rightarrow> string option \<Rightarrow> world \<Rightarrow> (crash + unit) \<times> world) \<Rightarrow>
   string \<Rightarrow> walk_node list \<Rightarrow> world \<Rightarrow> (crash + unit) \<times> world"
where
  "walk fn path (LstatFails n e) w = fn path None (Some e) w"
| "walk fn path (NonDir n) w = fn path (Some \<lparr>Name = n, IsDir = False\<rparr>) None w"
| "walk fn path (DirNode n err entries) w =
     (case fn path (Some \<lparr>Name = n, IsDir = True\<rparr>) err w of
        (Inl c, w1) \<Rightarrow> (Inl c, w1)
      | (Inr u, w1) \<Rightarrow> if err \<noteq> None then (Inr (), w1) else walk_entries fn path entries w1)"
| "walk_entries fn dir [] w = (Inr (), w)"
| "walk_entries fn dir (x # xs) w =
     (case walk fn (Join dir (node_name x)) x w of
        (Inl c, w1) \<Rightarrow> (Inl c, w1)
      | (Inr u, w1) \<Rightarrow> walk_entries fn dir xs w1)"

definition processDir :: "env \<Rightarrow> Config \<Rightarrow> world \<Rightarrow> (crash + unit) \<times> world" where
  "processDir E cfg w =
     walk (walkFn E cfg) (Path (Watcher cfg)) (walk_view E (Path (Watcher cfg)) w) w"

text \<open>\<^verbatim>\<open>main\<close> from line 182 to the entry of the event loop at line 207. Reading the
  configuration (lines 163 to 180) comes before, and gives \<open>cfg\<close>.\<close>

definition main_startup :: "env \<Rightarrow> Config \<Rightarrow> world \<Rightarrow> (crash + unit) \<times> world" where
  "main_startup E cfg w =
     (case os_Stat E (Path (Watcher cfg)) w of
        Inl e \<Rightarrow> (Inl FatalExit, emit (FatalLog ''Unable to access watcher path'') w)
      | Inr fileInfo \<Rightarrow>
         if \<not> IsDir fileInfo then
           (Inl FatalExit, emit (FatalLog ''Watcher path is not a directory'') w)
         else
           (case processDir E cfg (emit (Log ProcessingOldFiles) w) of
              (Inl c, w1) \<Rightarrow> (Inl c, w1)
            | (Inr u, w1) \<Rightarrow>
               (let w2 = emit (Log (Watching (Path (Watcher cfg)))) w1
                in case notify_Watch E (Path (Watcher cfg)) w2 of
                     Some e \<Rightarrow> (Inl FatalExit, emit (FatalLog e) w2)
                   | None \<Rightarrow> (Inr (), emit (NotifyWatch (Path (Watcher cfg))) w2))))"

subsection \<open>Reading the trace\<close>

text \<open>The files whose detection was logged (one per call of \<^verbatim>\<open>processFile\<close>, its first
  action), the settle-waits, the commands run, the files opened for upload, the HTTP
  requests sent, the paths given to \<^verbatim>\<open>os.Remove\<close>, and the watches set up.\<close>

fun detected_of :: "event \<Rightarrow> string list" where
  "detected_of (Log (NewFileDetected p)) = [p]"
| "detected_of _ = []"

fun sleep_of :: "event \<Rightarrow> nat list" where
  "sleep_of (Sleep n) = [n]"
| "sleep_of _ = []"

fun exec_of :: "event \<Rightarrow> (string \<times> string list) list" where
  "exec_of (ExecCommand c args) = [(c, args)]"
| "exec_of _ = []"

fun opened_of :: "event \<Rightarrow> string list" where
  "opened_of (OpenFile p) = [p]"
| "opened_of _ = []"

fun request_of :: "event \<Rightarrow> request list" where
  "request_of (HttpDo r) = [r]"
| "request_of _ = []"

fun removed_of :: "event \<Rightarrow> string list" where
  "removed_of (Remove p) = [p]"
| "removed_of _ = []"

fun watch_of :: "event \<Rightarrow> string list" where
  "watch_of (NotifyWatch p) = [p]"
| "watch_of _ = []"

definition detected :: "event list \<Rightarrow> string list" where
  "detected tr = concat (map detected_of tr)"

definition sleeps :: "event list \<Rightarrow> nat list" where
  "sleeps tr = concat (map sleep_of tr)"

definition exec_calls :: "event list \<Rightarrow> (string \<times> string list) list" where
  "exec_calls tr = concat (map exec_of tr)"

definition opened :: "event list \<Rightarrow> string list" where
  "opened tr = concat (map opened_of tr)"

definition http_requests :: "event list \<Rightarrow> request list" where
  "http_requests tr = concat (map request_of tr)"

definition removed :: "event list \<Rightarrow> string list" where
  "removed tr = concat (map removed_of tr)"

definition watches :: "event list \<Rightarrow> string list" where
  "watches tr = concat (map watch_of tr)"

text \<open>The upload step was accepted: \<^verbatim>\<open>uploadFile\<close> returned, and the response has a status
  code from 200 to 299 (the test of line 134).\<close>

definition accepted :: "crash + response \<Rightarrow> bool" where
  "accepted ru = (case ru of
                    Inl c \<Rightarrow> False
                  | Inr res \<Rightarrow> StatusCode res \<ge> 200 \<and> StatusCode res < 300)"

text \<open>The non-directory entries \<^verbatim>\<open>filepath.Walk\<close> finds, in the order of the walk: the
  entries of a directory that cannot be read are not found.\<close>

fun nondirs :: "walk_node \<Rightarrow> string list" where
  "nondirs (LstatFails n e) = []"
| "nondirs (NonDir n) = [n]"
| "nondirs (DirNode n err entries) =
     (if err \<noteq> None then [] else concat (map nondirs entries))"

subsection \<open>A simulated environment\<close>

text \<open>The end-to-end scenario of the specification: the watched directory holds
  \<^verbatim>\<open>scan1.pdf\<close>, the OCR command is a stub that ends with the given error and writes its
  output file or not, and the HTTP client gives the given answer. Nothing refuses a
  removal.\<close>

definition cfg0 :: Config where
  "cfg0 = \<lparr>Server = \<lparr>Url = ''https://dav.example/scans'', User = ''scanner'', Pass = ''secret''\<rparr>,
           Watcher = \<lparr>Path = ''/scans''\<rparr>,
           Ocr = \<lparr>Exec = ''ocrmypdf'', Args = ''--deskew --clean''\<rparr>\<rparr>"

definition world0 :: world where
  "world0 = \<lparr>fs = [(''/scans'', Dir), (''/scans/scan1.pdf'', File ''scan''), (''/tmp'', Dir)],
             trace = []\<rparr>"

definition view0 :: walk_node where
  "view0 = DirNode ''scans'' None [NonDir ''scan1.pdf'']"

definition sim_env ::
  "string option \<Rightarrow> bool \<Rightarrow> response option \<times> string option \<Rightarrow> walk_node \<Rightarrow> env"
where
  "sim_env ocr_error writes_output answer view =
     \<lparr>mkdir_error = (\<lambda>w. None),
      random_names = (\<lambda>w. [''1'']),
      run_command = (\<lambda>c args w.
         ((''ocr output'', ocr_error),
          if writes_output then (last args, File ''pdf'') # fs w else fs w)),
      random_boundary = (\<lambda>w. ''b0''),
      new_request_error = (\<lambda>u. None),
      client_do = (\<lambda>req w. answer),
      walk_view = (\<lambda>p w. view),
      os_Stat = (\<lambda>p w. Inr \<lparr>Name = Base p, IsDir = True\<rparr>),
      notify_Watch = (\<lambda>p w. None),
      remove_error = (\<lambda>p w. None),
      remove_all_stuck = (\<lambda>d w. [])\<rparr>"

text \<open>An answer with a status code and a body read without error; after the body is
  closed a read fails, unless the body is empty.\<close>

definition answer :: "int \<Rightarrow> string \<Rightarrow> response option \<times> string option" where
  "answer code body =
     (Some \<lparr>StatusCode = code, Status = ''status'', Body = Inr body,
            BodyClosed = ([], if body = [] then None
                              else Some ''http: read on closed response body'')\<rparr>,
      None)"

definition env_ok :: env where
  "env_ok = sim_env None True (answer 200 []) view0"

definition env_rejected :: env where
  "env_rejected = sim_env None True (answer 500 ''no'') view0"

definition env_ocr_fails :: env where
  "env_ocr_fails = sim_env (Some ''exit status 2'') False (answer 200 []) view0"

definition env_no_output :: env where
  "env_no_output = sim_env None False (answer 200 []) view0"

text \<open>The server answers 500 and the connection breaks before the body is read.\<close>

definition env_broken_body :: env where
  "env_broken_body =
     sim_env None True
       (Some \<lparr>StatusCode = 500, Status = ''status'', Body = Inl ''unexpected EOF'',
              BodyClosed = ([], Some ''http: read on closed response body'')\<rparr>, None) view0"

definition env_unreachable :: env where
  "env_unreachable = sim_env None True (None, Some ''connection refused'') view0"

text \<open>The scenario with a server that answers 200, where the system refuses to remove the
  source file (the scanner's directory can be read but not written).\<close>

definition env_remove_refused :: env where
  "env_remove_refused = env_ok\<lparr>remove_error := (\<lambda>p w. Some ''permission denied'')\<rparr>"

text \<open>A watched directory that holds \<^verbatim>\<open>scan1.pdf\<close> and a subdirectory \<^verbatim>\<open>old\<close> with the file
  \<^verbatim>\<open>inner.pdf\<close>. The OCR command fails when its input (the argument before the last) is
  not a file, and writes its output otherwise.\<close>

definition world_nested :: world where
  "world_nested =
     \<lparr>fs = [(''/scans'', Dir), (''/scans/old'', Dir), (''/scans/old/inner.pdf'', File ''inner''),
             (''/scans/scan1.pdf'', File ''scan''), (''/tmp'', Dir)],
      trace = []\<rparr>"

definition env_nested :: env where
  "env_nested =
     (sim_env None True (answer 200 [])
        (DirNode ''scans'' None [DirNode ''old'' None [NonDir ''inner.pdf''], NonDir ''scan1.pdf'']))
     \<lparr>run_command := (\<lambda>c args w.
         if is_file (fs w) (last (butlast args))
         then ((''ocr output'', None), (last args, File ''pdf'') # fs w)
         else ((''input not found'', Some ''exit status 2''), fs w))\<rparr>"

text \<open>A watched directory where \<^verbatim>\<open>os.Lstat\<close> fails on the first of two files (it was
  removed after the names of the directory were read).\<close>

definition env_lstat_fails :: env where
  "env_lstat_fails =
     sim_env None True (answer 200 [])
       (DirNode ''scans'' None
          [LstatFails ''scan1.pdf'' ''no such file or directory'', NonDir ''scan2.pdf''])"

text \<open>A watched directory with a subdirectory whose names cannot be read.\<close>

definition env_unreadable_dir :: env where
  "env_unreadable_dir =
     sim_env None True (answer 200 [])
       (DirNode ''scans'' None
          [DirNode ''locked'' (Some ''permission denied'') [NonDir ''hidden.pdf''],
           NonDir ''scan2.pdf''])"

text \<open>An argument string whose quote is not closed.\<close>

definition cfg_open_quote :: Config where
  "cfg_open_quote = cfg0\<lparr>Ocr := \<lparr>Exec = ''ocrmypdf'', Args = ''--deskew '' @ [CHR 0x27] @ ''two words''\<rparr>\<rparr>"

section \<open>Facts about the model\<close>

lemmas proj_defs = detected_def sleeps_def exec_calls_def opened_def http_requests_def removed_def watches_def

lemmas run_defs = processFile_def staging_def TempDir_def job_def runOcr_def upload_step_def
  uploadFile_def cleanup_def os_Remove_def os_RemoveAll_def log_body_again_def emit_def Let_def
  sim_env_def cfg0_def world0_def view0_def answer_def
  env_ok_def env_rejected_def env_ocr_fails_def env_no_output_def env_unreachable_def
  env_broken_body_def
  env_remove_refused_def env_nested_def world_nested_def
  env_lstat_fails_def env_unreadable_dir_def cfg_open_quote_def
  shlex_Split_def scan_rune_def ClassifyRune_def keep_word_def
  Base_def Join_def Clean_def clean_step_def slash_def within_def has_children_def is_file_def
  FormDataContentType_def walkFn_def processDir_def main_startup_def

lemma pair_collapse: "x = (fst x, snd x)"
  by simp

lemma trace_emit [simp]: "trace (emit e w) = trace w @ [e]"
  by (simp add: emit_def)

lemma fs_emit [simp]: "fs (emit e w) = fs w"
  by (simp add: emit_def)

lemma os_RemoveAll_trace [simp]: "trace (os_RemoveAll E d w) = trace w @ [RemoveAll d]"
  by (simp add: os_RemoveAll_def)

lemma os_RemoveAll_fs:
  "fs (os_RemoveAll E d w) =
     filter (\<lambda>(q, n). \<not> within d q \<or> q \<in> set (remove_all_stuck E d w)) (fs w)"
  by (simp add: os_RemoveAll_def)

lemma os_Remove_trace [simp]: "trace (os_Remove E p w) = trace w @ [Remove p]"
  by (simp add: os_Remove_def Let_def)

lemma map_of_filter_key:
  "map_of (filter (\<lambda>(q, n). P q) t) p = (if P p then map_of t p else None)"
  by (induction t) auto

lemma is_file_filter:
  "is_file (filter (\<lambda>(q, n). P q) t) p = (P p \<and> is_file t p)"
  by (simp add: is_file_def map_of_filter_key)

lemma is_file_RemoveAll_outside:
  "\<not> within d p \<Longrightarrow> is_file (fs (os_RemoveAll E d w)) p = is_file (fs w) p"
  by (simp add: os_RemoveAll_fs is_file_filter)

lemma not_file_RemoveAll:
  "\<not> is_file (fs w) p \<Longrightarrow> \<not> is_file (fs (os_RemoveAll E d w)) p"
  by (simp add: os_RemoveAll_fs is_file_filter)

lemma os_Remove_not_file:
  "remove_error E p w = None \<Longrightarrow> \<not> is_file (fs (os_Remove E p w)) p"
  by (auto simp: os_Remove_def Let_def is_file_def map_of_filter_key)

lemma os_Remove_refused:
  "remove_error E p w \<noteq> None \<Longrightarrow> fs (os_Remove E p w) = fs w"
  by (auto simp: os_Remove_def Let_def)

lemma log_body_again_fs [simp]: "fs (log_body_again res w) = fs w"
  by (simp add: log_body_again_def Let_def split: prod.splits option.splits)

lemma log_body_again_trace:
  "detected (trace (log_body_again res w)) = detected (trace w)"
  "sleeps (trace (log_body_again res w)) = sleeps (trace w)"
  "watches (trace (log_body_again res w)) = watches (trace w)"
  "exec_calls (trace (log_body_again res w)) = exec_calls (trace w)"
  "removed (trace (log_body_again res w)) = removed (trace w)"
  by (simp_all add: log_body_again_def Let_def proj_defs split: prod.splits option.splits)

subsection \<open>What each step adds to the trace and does to the filesystem\<close>

lemma staging_trace:
  assumes "staging E inFile wait w = (r, w1)"
  shows "detected (trace w1) = detected (trace w) @ [inFile]"
    and "sleeps (trace w1) = sleeps (trace w) @ (if wait then [5] else [])"
    and "exec_calls (trace w1) = exec_calls (trace w)"
    and "opened (trace w1) = opened (trace w)"
    and "http_requests (trace w1) = http_requests (trace w)"
    and "removed (trace w1) = removed (trace w)"
    and "watches (trace w1) = watches (trace w)"
  using assms
  by (auto simp: staging_def TempDir_def Let_def proj_defs split: option.splits)

lemma staging_fs:
  assumes "staging E inFile wait w = (Inr d, w1)"
  shows "map_of (fs w) d = None" and "fs w1 = (d, Dir) # fs w"
  using assms
  by (auto simp: staging_def TempDir_def Let_def find_Some_iff split: option.splits)

lemma runOcr_trace:
  assumes "runOcr E cfg inFile tempFile w = (r, w1)"
  shows "detected (trace w1) = detected (trace w)"
    and "sleeps (trace w1) = sleeps (trace w)"
    and "exec_calls (trace w1) =
           exec_calls (trace w) @ [(Exec (Ocr cfg), fst (shlex_Split (Args (Ocr cfg))) @ [inFile, tempFile])]"
    and "opened (trace w1) = opened (trace w)"
    and "http_requests (trace w1) = http_requests (trace w)"
    and "removed (trace w1) = removed (trace w)"
    and "watches (trace w1) = watches (trace w)"
  using assms
  by (auto simp: runOcr_def Let_def proj_defs split: option.splits prod.splits)

lemma uploadFile_trace:
  assumes "uploadFile E filename url user passwd w = (r, w1)"
  shows "detected (trace w1) = detected (trace w)"
    and "sleeps (trace w1) = sleeps (trace w)"
    and "exec_calls (trace w1) = exec_calls (trace w)"
    and "opened (trace w1) = opened (trace w) @ [filename]"
    and "removed (trace w1) = removed (trace w)"
    and "watches (trace w1) = watches (trace w)"
  using assms
  by (auto simp: uploadFile_def Let_def proj_defs split: option.splits prod.splits node.splits sum.splits if_splits)

lemma uploadFile_fs:
  assumes "uploadFile E filename url user passwd w = (r, w1)"
  shows "fs w1 = fs w"
  using assms
  by (auto simp: uploadFile_def Let_def split: option.splits prod.splits node.splits sum.splits if_splits)

lemma upload_step_trace:
  assumes "upload_step E cfg tempFile w = (r, w1)"
  shows "detected (trace w1) = detected (trace w)"
    and "sleeps (trace w1) = sleeps (trace w)"
    and "exec_calls (trace w1) = exec_calls (trace w)"
    and "removed (trace w1) = removed (trace w)"
    and "watches (trace w1) = watches (trace w)"
    and "fs w1 = fs w"
  using assms uploadFile_trace [of E tempFile _ _ _ "emit (Log JobFinished) w" r w1]
    uploadFile_fs [of E tempFile _ _ _ "emit (Log JobFinished) w" r w1]
  by (auto simp: upload_step_def proj_defs)

lemma uploadFile_no_file:
  assumes "map_of (fs w) filename = None"
  shows "uploadFile E filename url user passwd w =
           (Inl FatalExit, emit (FatalLog ''Opening file'') (emit (OpenFile filename) w))"
  using assms by (simp add: uploadFile_def)

subsection \<open>The paths through \<^verbatim>\<open>processFile\<close>\<close>

lemma processFile_staged:
  assumes "staging E inFile wait w = (Inr d, w1)"
  shows "processFile E cfg inFile wait w =
           (case job E cfg inFile d w1 of
              (Inl FatalExit, w2) \<Rightarrow> (Inl FatalExit, w2)
            | (r, w2) \<Rightarrow> (r, os_RemoveAll E d w2))"
  using assms by (simp add: processFile_def)

lemma job_ocr_failed:
  assumes "runOcr E cfg inFile (Join d (Base inFile)) w1 = (Some e, w2)"
  shows "job E cfg inFile d w1 = cleanup E d (emit (Log (JobFailed e)) w2)"
  using assms by (simp add: job_def)

lemma job_upload_crash:
  assumes "runOcr E cfg inFile (Join d (Base inFile)) w1 = (None, w2)"
      and "upload_step E cfg (Join d (Base inFile)) w2 = (Inl c, w3)"
  shows "job E cfg inFile d w1 = (Inl c, w3)"
  using assms by (simp add: job_def)

lemma job_uploaded:
  assumes "runOcr E cfg inFile (Join d (Base inFile)) w1 = (None, w2)"
      and "upload_step E cfg (Join d (Base inFile)) w2 = (Inr res, w3)"
  shows "job E cfg inFile d w1 =
           (if StatusCode res \<ge> 200 \<and> StatusCode res < 300 then
              cleanup E d (os_Remove E inFile (emit (Log (RemovingInput inFile)) w3))
            else cleanup E d (log_body_again res w3))"
  using assms by (simp add: job_def)

lemma upload_crash_propagates:
  assumes "staging E inFile wait w = (Inr d, w1)"
      and "runOcr E cfg inFile (Join d (Base inFile)) w1 = (None, w2)"
      and "upload_step E cfg (Join d (Base inFile)) w2 = (Inl c, w3)"
  shows "processFile E cfg inFile wait w =
           (Inl c, if c = FatalExit then w3 else os_RemoveAll E d w3)"
  using processFile_staged [OF assms(1), of cfg] job_upload_crash [OF assms(2) assms(3)]
  by (cases c) auto

lemma job_trace:
  assumes "job E cfg inFile d w1 = (r, w2)"
  shows "detected (trace w2) = detected (trace w1)"
    and "sleeps (trace w2) = sleeps (trace w1)"
    and "watches (trace w2) = watches (trace w1)"
    and "exec_calls (trace w2) = exec_calls (trace w1) @
           [(Exec (Ocr cfg), fst (shlex_Split (Args (Ocr cfg))) @ [inFile, Join d (Base inFile)])]"
proof -
  let ?tf = "Join d (Base inFile)"
  obtain e wa where o: "runOcr E cfg inFile ?tf w1 = (e, wa)"
    by (cases "runOcr E cfg inFile ?tf w1")
  note ot = runOcr_trace [OF o]
  have "detected (trace w2) = detected (trace w1) \<and> sleeps (trace w2) = sleeps (trace w1) \<and>
        watches (trace w2) = watches (trace w1) \<and>
        exec_calls (trace w2) = exec_calls (trace wa)"
  proof (cases e)
    case (Some err)
    then have "w2 = os_RemoveAll E d (emit (Log (RemovingTempDir d)) (emit (Log (JobFailed err)) wa))"
      using assms job_ocr_failed [of E cfg inFile d w1 err wa] o by (simp add: cleanup_def)
    then show ?thesis using ot by (simp add: proj_defs)
  next
    case None
    obtain ru wb where u: "upload_step E cfg ?tf wa = (ru, wb)"
      by (cases "upload_step E cfg ?tf wa")
    note ut = upload_step_trace [OF u]
    show ?thesis
    proof (cases ru)
      case (Inl c)
      then have "w2 = wb"
        using assms job_upload_crash [of E cfg inFile d w1 wa c wb] o u None by simp
      then show ?thesis using ot ut by simp
    next
      case (Inr res)
      then have "w2 = os_RemoveAll E d (emit (Log (RemovingTempDir d))
                        (os_Remove E inFile (emit (Log (RemovingInput inFile)) wb))) \<or>
                 w2 = os_RemoveAll E d (emit (Log (RemovingTempDir d)) (log_body_again res wb))"
        using assms job_uploaded [of E cfg inFile d w1 wa res wb] o u None
        by (auto simp: cleanup_def split: if_splits)
      then show ?thesis using ot ut log_body_again_trace [of res wb] by (auto simp: proj_defs)
    qed
  qed
  then show "detected (trace w2) = detected (trace w1)"
    and "sleeps (trace w2) = sleeps (trace w1)"
    and "watches (trace w2) = watches (trace w1)"
    and "exec_calls (trace w2) = exec_calls (trace w1) @
           [(Exec (Ocr cfg), fst (shlex_Split (Args (Ocr cfg))) @ [inFile, Join d (Base inFile)])]"
    using ot(3) by simp_all
qed

lemma processFile_exec:
  assumes "staging E inFile wait w = (Inr d, w1)"
      and "processFile E cfg inFile wait w = (r, w')"
  shows "exec_calls (trace w') = exec_calls (trace w) @
           [(Exec (Ocr cfg), fst (shlex_Split (Args (Ocr cfg))) @ [inFile, Join d (Base inFile)])]"
proof -
  obtain rj w2 where j: "job E cfg inFile d w1 = (rj, w2)"
    by (cases "job E cfg inFile d w1")
  have "w' = w2 \<or> w' = os_RemoveAll E d w2"
    using assms(2) processFile_staged [OF assms(1), of cfg] j
    by (auto split: sum.splits crash.splits)
  then have "exec_calls (trace w') = exec_calls (trace w2)"
    by (auto simp: proj_defs)
  then show ?thesis
    using job_trace(4) [OF j] staging_trace(3) [OF assms(1)] by simp
qed

subsection \<open>Single quotes in \<^verbatim>\<open>shlex.Split\<close>\<close>

lemma quoted_scan:
  assumes "CHR 0x27 \<notin> set s"
  shows "shlex_scan quotingState ty val acc (s @ CHR 0x27 # rest) =
         shlex_scan inWordState ty (val @ s) acc rest"
  using assms
proof (induction s arbitrary: val)
  case Nil
  then show ?case by (simp add: scan_rune_def ClassifyRune_def)
next
  case (Cons c s)
  then have "scan_rune quotingState ty val c = Continue quotingState ty (val @ [c])"
    by (auto simp: scan_rune_def ClassifyRune_def)
  then show ?case using Cons by simp
qed

lemma single_quoted_word:
  assumes "CHR 0x27 \<notin> set s"
  shows "shlex_Split (CHR 0x27 # s @ [CHR 0x27]) = ([s], None)"
proof -
  have "shlex_Split (CHR 0x27 # s @ [CHR 0x27]) =
        shlex_scan quotingState WordToken [] [] (s @ [CHR 0x27])"
    by (simp add: shlex_Split_def scan_rune_def ClassifyRune_def)
  also have "\<dots> = shlex_scan inWordState WordToken s [] []"
    using quoted_scan [OF assms, of WordToken "[]" "[]" "[]"] by simp
  finally show ?thesis by (simp add: keep_word_def)
qed

subsection \<open>\<^verbatim>\<open>shlex.Split\<close> adds nothing\<close>

text \<open>The words returned, put end to end, are a subsequence of the input: every
  character of a word is a character of the input, in the order of the input.\<close>

lemma scan_rune_Continue:
  "scan_rune st ty val c = Continue st' ty' val' \<Longrightarrow> val' = val \<or> val' = val @ [c]"
  by (auto simp: scan_rune_def split: lexerState.splits runeTokenClass.splits if_splits)

lemma scan_rune_Emit:
  "scan_rune st ty val c = Emit ty' val' \<Longrightarrow> val' = val"
  by (auto simp: scan_rune_def split: lexerState.splits runeTokenClass.splits if_splits)

lemma subseq_skip: "subseq (xs @ zs) (xs @ ys @ c # zs)"
proof -
  have "subseq zs (c # zs)" by (rule list_emb_Cons) (rule subseq_order.order_refl)
  then have "subseq zs (ys @ c # zs)" by (rule subseq_drop_many)
  then show ?thesis by (simp add: subseq_append')
qed

lemma subseq_keep_word:
  "subseq (concat (keep_word acc ty val) @ zs) (concat acc @ val @ c # zs)"
proof (cases "ty = WordToken")
  case True
  have "subseq ((concat acc @ val) @ zs) ((concat acc @ val) @ [] @ c # zs)"
    by (rule subseq_skip)
  then show ?thesis using True by (simp add: keep_word_def)
next
  case False
  then show ?thesis using subseq_skip [of "concat acc" zs val c] by (simp add: keep_word_def)
qed

lemma subseq_keep_word_end:
  "subseq (concat (keep_word acc ty val)) (concat acc @ val)"
  by (cases "ty = WordToken") (simp_all add: keep_word_def subseq_rev_drop_many)

lemma shlex_scan_subseq:
  "subseq (concat (fst (shlex_scan st ty val acc s))) (concat acc @ val @ s)"
proof (induction s arbitrary: st ty val acc)
  case Nil
  have "subseq (concat acc) (concat acc @ val)"
    by (simp add: subseq_rev_drop_many)
  then show ?case
    using subseq_keep_word_end [of acc ty val] by (cases st) simp_all
next
  case (Cons c cs)
  show ?case
  proof (cases "scan_rune st ty val c")
    case (Continue st' ty' val')
    have "subseq (concat (fst (shlex_scan st' ty' val' acc cs))) (concat acc @ val' @ cs)"
      by (rule Cons.IH)
    moreover have "subseq (concat acc @ val' @ cs) (concat acc @ val @ c # cs)"
      using scan_rune_Continue [OF Continue] subseq_skip [of "concat acc @ val" cs "[]" c]
      by auto
    ultimately have "subseq (concat (fst (shlex_scan st' ty' val' acc cs))) (concat acc @ val @ c # cs)"
      by (rule subseq_order.order_trans)
    then show ?thesis
      using Continue by simp
  next
    case (Emit ty' val')
    then have v: "val' = val" by (rule scan_rune_Emit)
    have "subseq (concat (fst (shlex_scan startState UnknownToken [] (keep_word acc ty' val) cs)))
            (concat (keep_word acc ty' val) @ [] @ cs)"
      by (rule Cons.IH)
    moreover have "subseq (concat (keep_word acc ty' val) @ [] @ cs) (concat acc @ val @ c # cs)"
      using subseq_keep_word [of acc ty' val cs c] by simp
    ultimately have "subseq (concat (fst (shlex_scan startState UnknownToken [] (keep_word acc ty' val) cs)))
            (concat acc @ val @ c # cs)"
      by (rule subseq_order.order_trans)
    then show ?thesis
      using Emit v by simp
  qed
qed

lemma shlex_Split_subseq: "subseq (concat (fst (shlex_Split s))) s"
  using shlex_scan_subseq [of startState UnknownToken "[]" "[]" s]
  by (simp add: shlex_Split_def)

section \<open>The claims\<close>


text \<open>
  In the theorems below \<open>w\<close> is the world in which \<^verbatim>\<open>processFile\<close> is called, \<open>w1\<close> the
  world after staging with the temporary directory \<open>d\<close>, \<open>w2\<close> the world in which the OCR
  command has returned, \<open>w3\<close> the world in which \<^verbatim>\<open>uploadFile\<close> has returned, and \<open>w'\<close> the
  world at the end of \<^verbatim>\<open>processFile\<close>, whose result \<open>r\<close> is \<open>Inr ()\<close> when it returns.
\<close>

text \<open>
  Claim C1, as amended. In every job that reaches the upload step (the OCR run
  succeeded), the job calls \<^verbatim>\<open>os.Remove\<close> on the source file if and only if \<^verbatim>\<open>uploadFile\<close>
  returns a response whose status code is in 200..299, and with such a response the job
  returns. When that call is not refused by the system, no file is at the source path
  afterwards. Without such a response (another status, or no return from \<^verbatim>\<open>uploadFile\<close>)
  a source file that was there when the OCR command returned, and does not lie in the
  job's own temporary directory, is still there afterwards.
\<close>

theorem upload_status_decides_removal:
  assumes "staging E inFile wait w = (Inr d, w1)"
      and "runOcr E cfg inFile (Join d (Base inFile)) w1 = (None, w2)"
      and "upload_step E cfg (Join d (Base inFile)) w2 = (ru, w3)"
      and "processFile E cfg inFile wait w = (r, w')"
  shows "removed (trace w') = removed (trace w) @ (if accepted ru then [inFile] else []) \<and>
         (accepted ru \<longrightarrow> r = Inr ()) \<and>
         (accepted ru \<and> remove_error E inFile (emit (Log (RemovingInput inFile)) w3) = None \<longrightarrow>
            \<not> is_file (fs w') inFile) \<and>
         (\<not> accepted ru \<and> is_file (fs w2) inFile \<and> \<not> within d inFile \<longrightarrow>
            is_file (fs w') inFile)"
proof -
  note ps = processFile_staged [OF assms(1), of cfg]
  note u = upload_step_trace [OF assms(3)]
  have pre: "removed (trace w3) = removed (trace w)"
    using staging_trace(6) [OF assms(1)] runOcr_trace(6) [OF assms(2)] u(4) by simp
  show ?thesis
  proof (cases ru)
    case (Inl c)
    then have "processFile E cfg inFile wait w =
                 (Inl c, if c = FatalExit then w3 else os_RemoveAll E d w3)"
      using upload_crash_propagates [OF assms(1) assms(2)] assms(3) by simp
    then have p: "w' = w3 \<or> w' = os_RemoveAll E d w3"
      using assms(4) by (auto split: if_splits)
    have rm: "removed (trace w') = removed (trace w)"
      using p pre by (auto simp: proj_defs)
    have kept: "is_file (fs w') inFile" if "is_file (fs w2) inFile" "\<not> within d inFile"
      using p u(6) that by (auto simp: is_file_RemoveAll_outside)
    have "\<not> accepted ru" using Inl by (simp add: accepted_def)
    then show ?thesis using rm kept by simp
  next
    case (Inr res)
    note j = job_uploaded [OF assms(2), of res w3]
    show ?thesis
    proof (cases "accepted ru")
      case True
      let ?wr = "emit (Log (RemovingInput inFile)) w3"
      have ok: "200 \<le> StatusCode res \<and> StatusCode res < 300"
        using True Inr by (simp add: accepted_def)
      then have p: "r = Inr () \<and>
          w' = os_RemoveAll E d (os_RemoveAll E d (emit (Log (RemovingTempDir d))
                 (os_Remove E inFile ?wr)))"
        using assms(3,4) Inr ps j by (auto simp: cleanup_def)
      have rm: "removed (trace w') = removed (trace w) @ [inFile]"
        using p pre by (simp add: proj_defs)
      have gone: "\<not> is_file (fs w') inFile" if "remove_error E inFile ?wr = None"
      proof -
        have "\<not> is_file (fs (emit (Log (RemovingTempDir d)) (os_Remove E inFile ?wr))) inFile"
          using os_Remove_not_file [OF that] by simp
        then show ?thesis
          using p by (simp add: not_file_RemoveAll)
      qed
      have "r = Inr ()" using p by simp
      then show ?thesis using True rm gone by simp
    next
      case False
      then have no: "\<not> (200 \<le> StatusCode res \<and> StatusCode res < 300)"
        using Inr by (simp add: accepted_def)
      then have p: "w' = os_RemoveAll E d (os_RemoveAll E d (emit (Log (RemovingTempDir d))
                 (log_body_again res w3)))"
        using assms(3,4) Inr ps j by (auto simp: cleanup_def)
      have rm: "removed (trace w') = removed (trace w)"
        using p pre log_body_again_trace(5) [of res w3] by (simp add: proj_defs)
      have kept: "is_file (fs w') inFile" if "is_file (fs w2) inFile" "\<not> within d inFile"
        using p u(6) that by (simp add: is_file_RemoveAll_outside)
      show ?thesis using False rm kept by simp
    qed
  qed
qed

text \<open>The scenario with a server that answers 200, with one that answers 500, and with
  one whose answer 500 cannot be read to the end.\<close>

theorem upload_status_decides_removal_witness:
  "is_file (fs world0) ''/scans/scan1.pdf'' \<and>
   \<not> is_file (fs (snd (processFile env_ok cfg0 ''/scans/scan1.pdf'' False world0)))
        ''/scans/scan1.pdf'' \<and>
   removed (trace (snd (processFile env_ok cfg0 ''/scans/scan1.pdf'' False world0))) =
     [''/scans/scan1.pdf''] \<and>
   is_file (fs (snd (processFile env_rejected cfg0 ''/scans/scan1.pdf'' False world0)))
     ''/scans/scan1.pdf'' \<and>
   removed (trace (snd (processFile env_rejected cfg0 ''/scans/scan1.pdf'' False world0))) = [] \<and>
   is_file (fs (snd (processFile env_broken_body cfg0 ''/scans/scan1.pdf'' False world0)))
     ''/scans/scan1.pdf''"
proof -
  let ?f = "''/scans/scan1.pdf''"
  let ?d = "''/tmp/ocrmypdf-1''"
  let ?tf = "Join ?d (Base ?f)"
  let ?a1 = "snd (staging env_ok ?f False world0)"
  let ?a2 = "snd (runOcr env_ok cfg0 ?f ?tf ?a1)"
  let ?b1 = "snd (staging env_rejected ?f False world0)"
  let ?b2 = "snd (runOcr env_rejected cfg0 ?f ?tf ?b1)"
  let ?c1 = "snd (staging env_broken_body ?f False world0)"
  let ?c2 = "snd (runOcr env_broken_body cfg0 ?f ?tf ?c1)"
  have a1: "staging env_ok ?f False world0 = (Inr ?d, ?a1)"
    by (simp add: run_defs)
  have a2: "runOcr env_ok cfg0 ?f ?tf ?a1 = (None, ?a2)"
    by (simp add: run_defs)
  have a3: "accepted (fst (upload_step env_ok cfg0 ?tf ?a2))"
    by (simp add: run_defs accepted_def)
  have a4: "remove_error env_ok ?f v = None" for v
    by (simp add: env_ok_def sim_env_def)
  have b1: "staging env_rejected ?f False world0 = (Inr ?d, ?b1)"
    by (simp add: run_defs)
  have b2: "runOcr env_rejected cfg0 ?f ?tf ?b1 = (None, ?b2)"
    by (simp add: run_defs)
  have b3: "\<not> accepted (fst (upload_step env_rejected cfg0 ?tf ?b2))"
    by (simp add: run_defs accepted_def)
  have b4: "is_file (fs ?b2) ?f"
    by (simp add: run_defs)
  have c1: "staging env_broken_body ?f False world0 = (Inr ?d, ?c1)"
    by (simp add: run_defs)
  have c2: "runOcr env_broken_body cfg0 ?f ?tf ?c1 = (None, ?c2)"
    by (simp add: run_defs)
  have c3: "\<not> accepted (fst (upload_step env_broken_body cfg0 ?tf ?c2))"
    by (simp add: run_defs accepted_def)
  have c4: "is_file (fs ?c2) ?f"
    by (simp add: run_defs)
  have n: "\<not> within ?d ?f"
    by (simp add: within_def slash_def)
  have w0: "is_file (fs world0) ?f" "removed (trace world0) = []"
    by (simp_all add: world0_def is_file_def removed_def)
  show ?thesis
    using upload_status_decides_removal [OF a1 a2 pair_collapse pair_collapse]
          upload_status_decides_removal [OF b1 b2 pair_collapse pair_collapse]
          upload_status_decides_removal [OF c1 c2 pair_collapse pair_collapse]
          a3 a4 b3 b4 c3 c4 n w0
    by simp
qed

text \<open>Claim C1 as it is written fails where the system refuses the removal: the upload is
  answered with 200, line 136 calls \<^verbatim>\<open>os.Remove\<close> on the source and drops its error, the
  job returns, and the source file is still there.\<close>

theorem source_stays_when_remove_refused:
  "is_file (fs world0) ''/scans/scan1.pdf'' \<and>
   accepted (fst (upload_step env_remove_refused cfg0 ''/tmp/ocrmypdf-1/scan1.pdf''
     (snd (runOcr env_remove_refused cfg0 ''/scans/scan1.pdf'' ''/tmp/ocrmypdf-1/scan1.pdf''
       (snd (staging env_remove_refused ''/scans/scan1.pdf'' False world0)))))) \<and>
   fst (processFile env_remove_refused cfg0 ''/scans/scan1.pdf'' False world0) = Inr () \<and>
   removed (trace (snd (processFile env_remove_refused cfg0 ''/scans/scan1.pdf'' False world0))) =
     [''/scans/scan1.pdf''] \<and>
   is_file (fs (snd (processFile env_remove_refused cfg0 ''/scans/scan1.pdf'' False world0)))
     ''/scans/scan1.pdf''"
  by (simp add: run_defs proj_defs accepted_def)

text \<open>
  Claim C2, at the runs where \<^verbatim>\<open>log.Fatal*\<close> ends the process inside \<^verbatim>\<open>uploadFile\<close>. Line 110
  defers \<^verbatim>\<open>os.RemoveAll(tempDir)\<close> and line 147 calls it, and the runs that return remove
  the directory: the success, the failed OCR run, the upload answered with 500. Where the
  OCR command exits with 0 and writes no output, \<^verbatim>\<open>os.Open\<close> fails (line 57), the
  process exits, and neither call runs: the trace holds no \<^verbatim>\<open>os.RemoveAll\<close> and the
  temporary directory made at staging is still there. The same where the upload is
  answered with 500 and the body cannot be read (line 87); there the OCR output is left
  behind as well.
\<close>

theorem temp_dir_left_on_fatal_exit:
  "fst (staging env_no_output ''/scans/scan1.pdf'' False world0) = Inr ''/tmp/ocrmypdf-1'' \<and>
   fst (processFile env_no_output cfg0 ''/scans/scan1.pdf'' False world0) = Inl FatalExit \<and>
   RemoveAll ''/tmp/ocrmypdf-1''
     \<notin> set (trace (snd (processFile env_no_output cfg0 ''/scans/scan1.pdf'' False world0))) \<and>
   map_of (fs (snd (processFile env_no_output cfg0 ''/scans/scan1.pdf'' False world0)))
     ''/tmp/ocrmypdf-1'' = Some Dir \<and>
   fst (staging env_broken_body ''/scans/scan1.pdf'' False world0) = Inr ''/tmp/ocrmypdf-1'' \<and>
   fst (processFile env_broken_body cfg0 ''/scans/scan1.pdf'' False world0) = Inl FatalExit \<and>
   map (\<lambda>q. (Method q, URL q))
     (http_requests (trace (snd (processFile env_broken_body cfg0 ''/scans/scan1.pdf'' False world0)))) =
     [(''PUT'', ''https://dav.example/scans/scan1.pdf'')] \<and>
   RemoveAll ''/tmp/ocrmypdf-1''
     \<notin> set (trace (snd (processFile env_broken_body cfg0 ''/scans/scan1.pdf'' False world0))) \<and>
   map_of (fs (snd (processFile env_broken_body cfg0 ''/scans/scan1.pdf'' False world0)))
     ''/tmp/ocrmypdf-1'' = Some Dir \<and>
   map_of (fs (snd (processFile env_broken_body cfg0 ''/scans/scan1.pdf'' False world0)))
     ''/tmp/ocrmypdf-1/scan1.pdf'' = Some (File ''pdf'') \<and>
   fst (processFile env_ok cfg0 ''/scans/scan1.pdf'' False world0) = Inr () \<and>
   map_of (fs (snd (processFile env_ok cfg0 ''/scans/scan1.pdf'' False world0)))
     ''/tmp/ocrmypdf-1'' = None \<and>
   fst (processFile env_ocr_fails cfg0 ''/scans/scan1.pdf'' False world0) = Inr () \<and>
   map_of (fs (snd (processFile env_ocr_fails cfg0 ''/scans/scan1.pdf'' False world0)))
     ''/tmp/ocrmypdf-1'' = None \<and>
   fst (processFile env_rejected cfg0 ''/scans/scan1.pdf'' False world0) = Inr () \<and>
   map_of (fs (snd (processFile env_rejected cfg0 ''/scans/scan1.pdf'' False world0)))
     ''/tmp/ocrmypdf-1'' = None"
  by (simp add: run_defs proj_defs)

text \<open>
  Claim C3. When the OCR command ends with an error (a non-zero exit or a spawn error),
  \<^verbatim>\<open>processFile\<close> returns to its caller after logging the failure; it has opened no file
  for upload, sent no HTTP request and called \<^verbatim>\<open>os.Remove\<close> on nothing; a source file that
  was there when the OCR command returned (and does not lie in the job's own temporary
  directory) is still there afterwards.
\<close>

theorem ocr_failure_fails_job:
  assumes "staging E inFile wait w = (Inr d, w1)"
      and "runOcr E cfg inFile (Join d (Base inFile)) w1 = (Some e, w2)"
      and "processFile E cfg inFile wait w = (r, w')"
  shows "r = Inr () \<and>
         Log (JobFailed e) \<in> set (trace w') \<and>
         opened (trace w') = opened (trace w) \<and>
         http_requests (trace w') = http_requests (trace w) \<and>
         removed (trace w') = removed (trace w) \<and>
         (is_file (fs w2) inFile \<and> \<not> within d inFile \<longrightarrow> is_file (fs w') inFile)"
proof -
  have j: "job E cfg inFile d w1 = cleanup E d (emit (Log (JobFailed e)) w2)"
    using assms(2) by (rule job_ocr_failed)
  have p: "r = Inr () \<and>
           w' = os_RemoveAll E d (os_RemoveAll E d (emit (Log (RemovingTempDir d)) (emit (Log (JobFailed e)) w2)))"
    using assms(3) processFile_staged [OF assms(1), of cfg] j
    by (auto simp: cleanup_def)
  have t: "trace w' = trace w2 @ [Log (JobFailed e), Log (RemovingTempDir d), RemoveAll d, RemoveAll d]"
    using p by simp
  have "opened (trace w') = opened (trace w2)"
       "http_requests (trace w') = http_requests (trace w2)"
       "removed (trace w') = removed (trace w2)"
    using t by (simp_all add: proj_defs)
  moreover have "is_file (fs w') inFile" if "is_file (fs w2) inFile" "\<not> within d inFile"
    using p that by (simp add: is_file_RemoveAll_outside)
  ultimately show ?thesis
    using p t staging_trace [OF assms(1)] runOcr_trace [OF assms(2)]
    by simp
qed

theorem ocr_failure_fails_job_witness:
  "is_file (fs world0) ''/scans/scan1.pdf'' \<and>
   fst (processFile env_ocr_fails cfg0 ''/scans/scan1.pdf'' False world0) = Inr () \<and>
   opened (trace (snd (processFile env_ocr_fails cfg0 ''/scans/scan1.pdf'' False world0))) = [] \<and>
   http_requests (trace (snd (processFile env_ocr_fails cfg0 ''/scans/scan1.pdf'' False world0))) = [] \<and>
   is_file (fs (snd (processFile env_ocr_fails cfg0 ''/scans/scan1.pdf'' False world0)))
     ''/scans/scan1.pdf''"
proof -
  let ?f = "''/scans/scan1.pdf''"
  let ?d = "''/tmp/ocrmypdf-1''"
  let ?w1 = "snd (staging env_ocr_fails ?f False world0)"
  let ?w2 = "snd (runOcr env_ocr_fails cfg0 ?f (Join ?d (Base ?f)) ?w1)"
  have s: "staging env_ocr_fails ?f False world0 = (Inr ?d, ?w1)"
    by (simp add: run_defs)
  have o: "runOcr env_ocr_fails cfg0 ?f (Join ?d (Base ?f)) ?w1 = (Some ''exit status 2'', ?w2)"
    by (simp add: run_defs)
  have k: "is_file (fs ?w2) ?f" "\<not> within ?d ?f"
    by (simp_all add: run_defs)
  have w0: "is_file (fs world0) ?f" "opened (trace world0) = []"
    "http_requests (trace world0) = []"
    by (simp_all add: world0_def is_file_def proj_defs)
  show ?thesis
    using ocr_failure_fails_job [OF s o pair_collapse] k w0
    by simp
qed

text \<open>
  Claim C4. When the OCR run succeeded, the output file is read and the request is built,
  and \<^verbatim>\<open>client.Do\<close> returns an error and no response, then \<^verbatim>\<open>uploadFile\<close> does not return:
  the error is logged and the nil response is dereferenced. The panic passes through
  \<^verbatim>\<open>processFile\<close>, which does not return either: the process ends.
\<close>

theorem transport_error_ends_process:
  assumes "staging E inFile wait w = (Inr d, w1)"
      and "runOcr E cfg inFile (Join d (Base inFile)) w1 = (None, w2)"
      and "map_of (fs w2) (Join d (Base inFile)) = Some (File content)"
      and "new_request_error E (Url (Server cfg) @ ''/'' @ Base (Join d (Base inFile))) = None"
      and "client_do E
             \<lparr>Method = ''PUT'', URL = Url (Server cfg) @ ''/'' @ Base (Join d (Base inFile)),
              BasicAuth = Some (User (Server cfg), Pass (Server cfg)),
              Header = [(''Content-Type'',
                         FormDataContentType (random_boundary E (emit (Log JobFinished) w2)))],
              ReqBody = \<lparr>Boundary = random_boundary E (emit (Log JobFinished) w2),
                         Parts = [FormFile ''file'' (Base (Join d (Base inFile))) content]\<rparr>\<rparr>
             (emit (OpenFile (Join d (Base inFile))) (emit (Log JobFinished) w2))
           = (None, Some e)"
  shows "fst (upload_step E cfg (Join d (Base inFile)) w2) = Inl NilPanic \<and>
         fst (processFile E cfg inFile wait w) = Inl NilPanic \<and>
         Log (ErrorUploading e) \<in> set (trace (snd (processFile E cfg inFile wait w)))"
proof -
  let ?tf = "Join d (Base inFile)"
  obtain w3 where u: "upload_step E cfg ?tf w2 = (Inl NilPanic, w3)"
      and t: "Log (ErrorUploading e) \<in> set (trace w3)"
    using assms(3,4,5) by (simp add: upload_step_def uploadFile_def Let_def)
  have "processFile E cfg inFile wait w = (Inl NilPanic, os_RemoveAll E d w3)"
    using upload_crash_propagates [OF assms(1) assms(2) u] by simp
  then show ?thesis using u t by simp
qed

text \<open>In the scenario with a server that cannot be reached, the job does not return, and
  neither does the startup scan that called it: no watch is set up.\<close>

theorem transport_error_ends_process_witness:
  "fst (processFile env_unreachable cfg0 ''/scans/scan1.pdf'' False world0) = Inl NilPanic \<and>
   Log (ErrorUploading ''connection refused'')
     \<in> set (trace (snd (processFile env_unreachable cfg0 ''/scans/scan1.pdf'' False world0))) \<and>
   fst (main_startup env_unreachable cfg0 world0) = Inl NilPanic \<and>
   watches (trace (snd (main_startup env_unreachable cfg0 world0))) = []"
proof -
  let ?f = "''/scans/scan1.pdf''"
  let ?d = "''/tmp/ocrmypdf-1''"
  let ?w1 = "snd (staging env_unreachable ?f False world0)"
  let ?w2 = "snd (runOcr env_unreachable cfg0 ?f (Join ?d (Base ?f)) ?w1)"
  have s: "staging env_unreachable ?f False world0 = (Inr ?d, ?w1)"
    by (simp add: run_defs)
  have o: "runOcr env_unreachable cfg0 ?f (Join ?d (Base ?f)) ?w1 = (None, ?w2)"
    by (simp add: run_defs)
  have c: "map_of (fs ?w2) (Join ?d (Base ?f)) = Some (File ''pdf'')"
    by (simp add: run_defs)
  have n: "new_request_error env_unreachable
             (Url (Server cfg0) @ ''/'' @ Base (Join ?d (Base ?f))) = None"
    by (simp add: env_unreachable_def sim_env_def)
  have h: "client_do env_unreachable req v = (None, Some ''connection refused'')" for req v
    by (simp add: env_unreachable_def sim_env_def)
  have m: "fst (main_startup env_unreachable cfg0 world0) = Inl NilPanic"
          "watches (trace (snd (main_startup env_unreachable cfg0 world0))) = []"
    by (simp_all add: run_defs proj_defs)
  show ?thesis
    using transport_error_ends_process [OF s o c n h] m
    by simp
qed

text \<open>
  Claim C5, at an argument string whose quote is not closed. \<^verbatim>\<open>shlex.Split\<close> returns the
  words before the error together with the error; lines 117 to 119 log it and go on.
  The OCR command is run with the words lexed so far and the two paths, and since the
  stub exits with 0 the output is uploaded and the source removed: the job does not
  end as failed.
\<close>

theorem parse_error_still_runs_ocr:
  "shlex_Split (Args (Ocr cfg_open_quote)) =
     ([''--deskew''], Some ''EOF found when expecting closing quote'') \<and>
   fst (processFile env_ok cfg_open_quote ''/scans/scan1.pdf'' False world0) = Inr () \<and>
   Log (ErrorParsingArguments ''EOF found when expecting closing quote'')
     \<in> set (trace (snd (processFile env_ok cfg_open_quote ''/scans/scan1.pdf'' False world0))) \<and>
   exec_calls (trace (snd (processFile env_ok cfg_open_quote ''/scans/scan1.pdf'' False world0))) =
     [(''ocrmypdf'', [''--deskew'', ''/scans/scan1.pdf'', ''/tmp/ocrmypdf-1/scan1.pdf''])] \<and>
   map URL (http_requests (trace (snd (processFile env_ok cfg_open_quote ''/scans/scan1.pdf'' False world0)))) =
     [''https://dav.example/scans/scan1.pdf''] \<and>
   removed (trace (snd (processFile env_ok cfg_open_quote ''/scans/scan1.pdf'' False world0))) =
     [''/scans/scan1.pdf'']"
  by (simp add: run_defs proj_defs)

text \<open>
  Claim C6. When the OCR command exits with 0 and nothing is at the temporary output path,
  \<^verbatim>\<open>os.Open\<close> fails in \<^verbatim>\<open>uploadFile\<close> and \<^verbatim>\<open>log.Fatalf\<close> ends the process: \<^verbatim>\<open>processFile\<close>
  does not return, the last thing logged is the fatal message, and no HTTP request was
  sent.
\<close>

theorem missing_output_is_fatal:
  assumes "staging E inFile wait w = (Inr d, w1)"
      and "runOcr E cfg inFile (Join d (Base inFile)) w1 = (None, w2)"
      and "map_of (fs w2) (Join d (Base inFile)) = None"
      and "processFile E cfg inFile wait w = (r, w')"
  shows "fst (upload_step E cfg (Join d (Base inFile)) w2) = Inl FatalExit \<and>
         r = Inl FatalExit \<and>
         last (trace w') = FatalLog ''Opening file'' \<and>
         http_requests (trace w') = http_requests (trace w)"
proof -
  let ?tf = "Join d (Base inFile)"
  let ?w3 = "emit (FatalLog ''Opening file'') (emit (OpenFile ?tf) (emit (Log JobFinished) w2))"
  have u: "upload_step E cfg ?tf w2 = (Inl FatalExit, ?w3)"
    using assms(3) by (simp add: upload_step_def uploadFile_no_file)
  have p: "r = Inl FatalExit \<and> w' = ?w3"
    using upload_crash_propagates [OF assms(1) assms(2) u] assms(4) by simp
  have "http_requests (trace w') = http_requests (trace w2)"
    using p by (simp add: proj_defs)
  then show ?thesis
    using u p staging_trace(5) [OF assms(1)] runOcr_trace(5) [OF assms(2)] by simp
qed

theorem missing_output_is_fatal_witness:
  "fst (processFile env_no_output cfg0 ''/scans/scan1.pdf'' False world0) = Inl FatalExit \<and>
   last (trace (snd (processFile env_no_output cfg0 ''/scans/scan1.pdf'' False world0))) =
     FatalLog ''Opening file'' \<and>
   http_requests (trace (snd (processFile env_no_output cfg0 ''/scans/scan1.pdf'' False world0))) = []"
proof -
  let ?f = "''/scans/scan1.pdf''"
  let ?d = "''/tmp/ocrmypdf-1''"
  let ?w1 = "snd (staging env_no_output ?f False world0)"
  let ?w2 = "snd (runOcr env_no_output cfg0 ?f (Join ?d (Base ?f)) ?w1)"
  have s: "staging env_no_output ?f False world0 = (Inr ?d, ?w1)"
    by (simp add: run_defs)
  have o: "runOcr env_no_output cfg0 ?f (Join ?d (Base ?f)) ?w1 = (None, ?w2)"
    by (simp add: run_defs)
  have c: "map_of (fs ?w2) (Join ?d (Base ?f)) = None"
    by (simp add: run_defs)
  have w0: "http_requests (trace world0) = []"
    by (simp add: world0_def proj_defs)
  show ?thesis
    using missing_output_is_fatal [OF s o c pair_collapse] w0
    by simp
qed

text \<open>
  Claim C7. Whatever the configured argument string, the job runs the configured
  executable once, with the words \<^verbatim>\<open>shlex.Split\<close> gives for the string followed by the
  source path and then the temporary output path (the base name of the source inside
  the temporary directory). The string of the specification splits as it says;
  a backslash escapes a blank, double quotes keep blanks, and \<^verbatim>\<open>$HOME\<close>, \<^verbatim>\<open>*.pdf\<close>, \<^verbatim>\<open>~\<close> and
  \<^verbatim>\<open>|\<close> stay as they are; whatever stands between single quotes is one word, unchanged.
  Nothing is expanded: the words, put end to end, are a subsequence of the string.
\<close>

theorem ocr_argument_vector:
  assumes "staging E inFile wait w = (Inr d, w1)"
      and "processFile E cfg inFile wait w = (r, w')"
  shows "exec_calls (trace w') = exec_calls (trace w) @
           [(Exec (Ocr cfg),
             fst (shlex_Split (Args (Ocr cfg))) @ [inFile, Join d (Base inFile)])] \<and>
         shlex_Split (''--flag-a --flag-b '' @ [CHR 0x27] @ ''two words'' @ [CHR 0x27]) =
           ([''--flag-a'', ''--flag-b'', ''two words''], None) \<and>
         shlex_Split (''a'' @ [CHR 0x5C] @ '' b $HOME *.pdf ~ | '' @ [CHR 0x22] @ ''c  d'' @ [CHR 0x22]) =
           ([''a b'', ''$HOME'', ''*.pdf'', ''~'', ''|'', ''c  d''], None) \<and>
         (CHR 0x27 \<notin> set s \<longrightarrow> shlex_Split (CHR 0x27 # s @ [CHR 0x27]) = ([s], None)) \<and>
         subseq (concat (fst (shlex_Split (Args (Ocr cfg))))) (Args (Ocr cfg))"
proof -
  have "shlex_Split (''--flag-a --flag-b '' @ [CHR 0x27] @ ''two words'' @ [CHR 0x27]) =
           ([''--flag-a'', ''--flag-b'', ''two words''], None)"
    by (simp add: shlex_Split_def scan_rune_def ClassifyRune_def keep_word_def)
  moreover have "shlex_Split (''a'' @ [CHR 0x5C] @ '' b $HOME *.pdf ~ | '' @ [CHR 0x22] @ ''c  d'' @ [CHR 0x22]) =
           ([''a b'', ''$HOME'', ''*.pdf'', ''~'', ''|'', ''c  d''], None)"
    by (simp add: shlex_Split_def scan_rune_def ClassifyRune_def keep_word_def)
  ultimately show ?thesis
    using processFile_exec [OF assms] single_quoted_word [of s]
      shlex_Split_subseq [of "Args (Ocr cfg)"] by simp
qed

theorem ocr_argument_vector_witness:
  "exec_calls (trace (snd (processFile env_ok (cfg0\<lparr>Ocr := \<lparr>Exec = ''ocrmypdf'',
       Args = ''--flag-a --flag-b '' @ [CHR 0x27] @ ''two words'' @ [CHR 0x27]\<rparr>\<rparr>)
       ''/scans/scan1.pdf'' False world0))) =
     [(''ocrmypdf'', [''--flag-a'', ''--flag-b'', ''two words'',
                      ''/scans/scan1.pdf'', ''/tmp/ocrmypdf-1/scan1.pdf''])] \<and>
   shlex_Split ([CHR 0x27] @ ''$(rm -rf /) *'' @ [CHR 0x27]) = ([''$(rm -rf /) *''], None)"
proof -
  let ?f = "''/scans/scan1.pdf''"
  let ?c = "cfg0\<lparr>Ocr := \<lparr>Exec = ''ocrmypdf'',
       Args = ''--flag-a --flag-b '' @ [CHR 0x27] @ ''two words'' @ [CHR 0x27]\<rparr>\<rparr>"
  have s: "staging env_ok ?f False world0 = (Inr ''/tmp/ocrmypdf-1'', snd (staging env_ok ?f False world0))"
    by (simp add: run_defs)
  have j: "Join ''/tmp/ocrmypdf-1'' (Base ?f) = ''/tmp/ocrmypdf-1/scan1.pdf''"
    by (simp add: run_defs)
  have t: "exec_calls (trace world0) = []"
    by (simp add: world0_def exec_calls_def)
  show ?thesis
    using ocr_argument_vector [OF s pair_collapse, of ?c "''$(rm -rf /) *''"] j t
    by (simp add: cfg0_def)
qed

text \<open>
  Claim C8. When the file can be read and the request can be built, \<^verbatim>\<open>uploadFile\<close> sends
  exactly one HTTP request: a PUT to the base URL, a slash and the base name of the file,
  with basic authentication from the user and password it is given (line 133 gives it
  the configured ones), one header \<^verbatim>\<open>Content-Type\<close> that is
  \<^verbatim>\<open>multipart/form-data; boundary=\<close> and the boundary of the body, and a body of one part:
  the content of the file under the field name \<^verbatim>\<open>file\<close> with the base name as file name.
\<close>

theorem upload_request_shape:
  assumes "map_of (fs w) filename = Some (File content)"
      and "new_request_error E (url @ ''/'' @ Base filename) = None"
      and "uploadFile E filename url user passwd w = (r, w')"
  shows "http_requests (trace w') = http_requests (trace w) @
           [\<lparr>Method = ''PUT'', URL = url @ ''/'' @ Base filename,
             BasicAuth = Some (user, passwd),
             Header = [(''Content-Type'', FormDataContentType (random_boundary E w))],
             ReqBody = \<lparr>Boundary = random_boundary E w,
                        Parts = [FormFile ''file'' (Base filename) content]\<rparr>\<rparr>] \<and>
         take 30 (FormDataContentType (random_boundary E w)) = ''multipart/form-data; boundary='' \<and>
         upload_step E cfg filename w0 =
           uploadFile E filename (Url (Server cfg)) (User (Server cfg)) (Pass (Server cfg))
             (emit (Log JobFinished) w0)"
  using assms
  by (auto simp: uploadFile_def upload_step_def Let_def proj_defs FormDataContentType_def
           split: prod.splits option.splits sum.splits if_splits)

theorem upload_request_shape_witness:
  "http_requests (trace (snd (processFile env_ok cfg0 ''/scans/scan1.pdf'' False world0))) =
     [\<lparr>Method = ''PUT'', URL = ''https://dav.example/scans/scan1.pdf'',
       BasicAuth = Some (''scanner'', ''secret''),
       Header = [(''Content-Type'', ''multipart/form-data; boundary=b0'')],
       ReqBody = \<lparr>Boundary = ''b0'', Parts = [FormFile ''file'' ''scan1.pdf'' ''pdf'']\<rparr>\<rparr>]"
proof -
  let ?f = "''/scans/scan1.pdf''"
  let ?tf = "''/tmp/ocrmypdf-1/scan1.pdf''"
  let ?w2 = "emit (Log JobFinished) (snd (runOcr env_ok cfg0 ?f ?tf (snd (staging env_ok ?f False world0))))"
  let ?w3 = "snd (uploadFile env_ok ?tf ''https://dav.example/scans'' ''scanner'' ''secret'' ?w2)"
  have a: "map_of (fs ?w2) ?tf = Some (File ''pdf'')"
    by (simp add: run_defs)
  have b: "new_request_error env_ok (''https://dav.example/scans'' @ ''/'' @ Base ?tf) = None"
    by (simp add: run_defs)
  have c: "http_requests (trace ?w2) = []"
    by (simp add: run_defs http_requests_def)
  have d: "http_requests (trace (snd (processFile env_ok cfg0 ?f False world0))) =
           http_requests (trace ?w3)"
    by (simp add: run_defs http_requests_def)
  have e: "random_boundary env_ok ?w2 = ''b0''" "Base ?tf = ''scan1.pdf''"
    by (simp_all add: run_defs)
  show ?thesis
    using upload_request_shape [OF a b pair_collapse, of "''scanner''" "''secret''"] c d e
    by (simp add: FormDataContentType_def)
qed

text \<open>
  Claim C9, at a watched directory that holds \<^verbatim>\<open>scan1.pdf\<close> and a subdirectory \<^verbatim>\<open>old\<close> with
  the file \<^verbatim>\<open>inner.pdf\<close>. The walk finds both files and calls the callback on each, with
  the path of the entry; line 156 does not use that path and gives \<^verbatim>\<open>processFile\<close> the
  watched path, a slash and the name. For \<^verbatim>\<open>scan1.pdf\<close> that is the entry: its job runs
  the OCR command on it, uploads it and removes it. For \<^verbatim>\<open>inner.pdf\<close> it is
  \<^verbatim>\<open>/scans/inner.pdf\<close>, where nothing is: the job runs the OCR command on that path and
  fails, no job runs on \<^verbatim>\<open>/scans/old/inner.pdf\<close>, and that file is still there when the
  watch is set up.
\<close>

theorem nested_entry_job_on_other_path:
  "nondirs (walk_view env_nested (Path (Watcher cfg0)) world_nested) =
     [''inner.pdf'', ''scan1.pdf''] \<and>
   fst (main_startup env_nested cfg0 world_nested) = Inr () \<and>
   last (trace (snd (main_startup env_nested cfg0 world_nested))) = NotifyWatch ''/scans'' \<and>
   detected (trace (snd (main_startup env_nested cfg0 world_nested))) =
     [''/scans/inner.pdf'', ''/scans/scan1.pdf''] \<and>
   sleeps (trace (snd (main_startup env_nested cfg0 world_nested))) = [] \<and>
   exec_calls (trace (snd (main_startup env_nested cfg0 world_nested))) =
     [(''ocrmypdf'', [''--deskew'', ''--clean'', ''/scans/inner.pdf'', ''/tmp/ocrmypdf-1/inner.pdf'']),
      (''ocrmypdf'', [''--deskew'', ''--clean'', ''/scans/scan1.pdf'', ''/tmp/ocrmypdf-1/scan1.pdf''])] \<and>
   map URL (http_requests (trace (snd (main_startup env_nested cfg0 world_nested)))) =
     [''https://dav.example/scans/scan1.pdf''] \<and>
   removed (trace (snd (main_startup env_nested cfg0 world_nested))) = [''/scans/scan1.pdf''] \<and>
   \<not> is_file (fs world_nested) ''/scans/inner.pdf'' \<and>
   is_file (fs world_nested) ''/scans/old/inner.pdf'' \<and>
   is_file (fs (snd (main_startup env_nested cfg0 world_nested))) ''/scans/old/inner.pdf'' \<and>
   \<not> is_file (fs (snd (main_startup env_nested cfg0 world_nested))) ''/scans/scan1.pdf''"
  by (simp add: run_defs proj_defs)

text \<open>
  Claim C10, at a directory where \<^verbatim>\<open>os.Lstat\<close> fails on the first of two files. The walk
  calls the callback with the error and a nil \<open>info\<close>; the callback logs the error and
  goes on to \<^verbatim>\<open>info.IsDir()\<close>, which panics. The scan ends there: the second file, which a
  walk without the error finds, is never processed. The other walk error, a directory
  whose names cannot be read, comes with the info of the directory: it is logged and the
  walk goes on to the next entry.
\<close>

theorem lstat_error_aborts_scan:
  "nondirs (DirNode ''scans'' None [NonDir ''scan2.pdf'']) = [''scan2.pdf''] \<and>
   processDir env_lstat_fails cfg0 world0 =
     (Inl NilPanic, world0\<lparr>trace := [Log (LoggedError ''no such file or directory'')]\<rparr>) \<and>
   detected (trace (snd (processDir env_lstat_fails cfg0 world0))) = [] \<and>
   fst (processDir env_unreadable_dir cfg0 world0) = Inr () \<and>
   hd (trace (snd (processDir env_unreadable_dir cfg0 world0))) =
     Log (LoggedError ''permission denied'') \<and>
   detected (trace (snd (processDir env_unreadable_dir cfg0 world0))) = [''/scans/scan2.pdf'']"
  by (simp add: run_defs proj_defs)

end
